theory Spec2Isabelle
  imports Main "HOL-Library.Multiset"
begin

section \<open>Python values\<close>

text \<open>
  Manifest parsers return dynamically typed values, and the extractors branch on
  their run-time type, so the values are modelled with their type. \<open>PFloat nz\<close>
  is a float of which only the truth value \<open>nz\<close> is kept (no branch of the
  resolver reads more); \<open>POther\<close> is any other object a parser may return (a
  TOML date, say): truthy, without \<^verbatim>\<open>.get\<close>, not a container. A dict is the
  list of its items, each key once.
\<close>

datatype pyval =
  PNone | PBool bool | PInt int | PFloat bool | PStr string
| PList "pyval list" | PDict "(string \<times> pyval) list" | POther

section \<open>Data model (autopipe/core/models.py)\<close>

text \<open>
  The enums of \<^verbatim>\<open>models.py\<close> are datatypes; the pydantic models are records
  whose fields carry the declared Python types (\<^verbatim>\<open>Optional[str]\<close> is
  \<open>string option\<close>, Python's unbounded \<^verbatim>\<open>int\<close> is \<open>int\<close>). Names that would
  clash are changed: \<^verbatim>\<open>BuildTool.NONE\<close> is \<open>NO_BUILD_TOOL\<close>, and the fields
  \<^verbatim>\<open>name\<close> and \<^verbatim>\<open>version\<close> of \<^verbatim>\<open>Dependency\<close> are \<open>dep_name\<close> and
  \<open>dep_version\<close>. The dict \<^verbatim>\<open>extra_vars\<close>, which the resolver leaves at its
  empty default, is a list of items.
\<close>

datatype Language =
  JAVA | KOTLIN | PYTHON | NODEJS | TYPESCRIPT | GO | DOTNET | PHP | UNKNOWN

datatype Framework =
  SPRING_BOOT | QUARKUS | MICRONAUT | KTOR
| DJANGO | FASTAPI | FLASK | AIOHTTP
| REACT | NEXTJS | NESTJS | EXPRESS | VUE | NUXT | ANGULAR
| LARAVEL | SYMFONY | YII | CODEIGNITER
| ASPNET_CORE | BLAZOR
| GIN | ECHO | FIBER
| NONE

datatype BuildTool =
  MAVEN | GRADLE | ANT | NPM | YARN | PNPM | POETRY | PIP | PIPENV | CONDA | UV
| GO_MOD | DOTNET_CLI | COMPOSER | NO_BUILD_TOOL

record Dependency =
  dep_name :: string
  dep_version :: string
  is_dev :: bool

record ProjectMetadata =
  name :: string
  version :: string
  description :: "string option"

record DetectedStack =
  language :: Language
  framework :: Framework
  build_tool :: BuildTool
  language_version :: string
  dependencies :: "Dependency list"
  java_version :: "string option"
  kotlin_version :: "string option"
  dotnet_framework_version :: "string option"
  node_version :: "string option"
  python_version :: "string option"
  go_version :: "string option"
  php_version :: "string option"
  project_root :: "string option"
  source_dir :: "string option"
  config_file :: "string option"
  entrypoint :: "string option"
  test_dir :: "string option"
  build_output_dir :: "string option"
  is_multi_module :: bool
  parent_project :: "string option"
  modules :: "string list"
  has_dockerfile :: bool
  has_tests :: bool
  test_framework :: "string option"
  package_manager_lock :: "string option"

record ProjectContext =
  metadata :: ProjectMetadata
  stack :: DetectedStack
  root_path :: string
  source_path :: string
  docker_context :: string
  is_monorepo :: bool
  detected_projects :: "DetectedStack list"
  extra_vars :: "(string \<times> pyval) list"

text \<open>
  \<^verbatim>\<open>DetectedStack(language=l)\<close>: every other field at the default that
  \<^verbatim>\<open>models.py\<close> declares.
\<close>

definition default_stack :: "Language \<Rightarrow> DetectedStack" where
  "default_stack l =
     \<lparr> language = l, framework = NONE, build_tool = NO_BUILD_TOOL,
       language_version = ''latest'', dependencies = [],
       java_version = None, kotlin_version = None, dotnet_framework_version = None,
       node_version = None, python_version = None, go_version = None,
       php_version = None,
       project_root = None, source_dir = None, config_file = None,
       entrypoint = None, test_dir = None, build_output_dir = None,
       is_multi_module = False, parent_project = None, modules = [],
       has_dockerfile = False, has_tests = False,
       test_framework = None, package_manager_lock = None \<rparr>"

section \<open>The scoring function (Resolver._get_priority)\<close>

text \<open>\<^verbatim>\<open>Resolver.LANGUAGE_PRIORITY\<close>: lower index, higher priority.\<close>

definition LANGUAGE_PRIORITY :: "Language list" where
  "LANGUAGE_PRIORITY =
     [JAVA, KOTLIN, DOTNET, GO, PYTHON, PHP, TYPESCRIPT, NODEJS]"

text \<open>\<^verbatim>\<open>Resolver.FRAMEWORK_PRIORITY\<close>, the dict literal in source order.\<close>

definition FRAMEWORK_PRIORITY :: "(Framework \<times> int) list" where
  "FRAMEWORK_PRIORITY =
     [(SPRING_BOOT, 0), (QUARKUS, 1), (MICRONAUT, 2), (KTOR, 3),
      (DJANGO, 0), (FASTAPI, 1), (FLASK, 2), (AIOHTTP, 3),
      (NESTJS, 0), (EXPRESS, 1), (NEXTJS, 10), (NUXT, 11),
      (ANGULAR, 20), (VUE, 21), (REACT, 22),
      (GIN, 0), (ECHO, 1), (FIBER, 2),
      (LARAVEL, 0), (SYMFONY, 1), (YII, 2), (CODEIGNITER, 3),
      (ASPNET_CORE, 0), (BLAZOR, 1)]"

text \<open>
  \<^verbatim>\<open>list.index(x)\<close>: the position of the first element equal to \<open>x\<close>;
  \<open>None\<close> stands for the \<^verbatim>\<open>ValueError\<close> raised when there is none.
\<close>

fun list_index :: "'a list \<Rightarrow> 'a \<Rightarrow> nat option" where
  "list_index [] x = None"
| "list_index (y # ys) x =
     (if y = x then Some 0
      else (case list_index ys x of None \<Rightarrow> None | Some i \<Rightarrow> Some (Suc i)))"

text \<open>\<^verbatim>\<open>dict.get(k, default)\<close> on a dict written as an association list.\<close>

definition dict_get :: "('k \<times> 'v) list \<Rightarrow> 'k \<Rightarrow> 'v \<Rightarrow> 'v" where
  "dict_get d k dflt = (case map_of d k of None \<Rightarrow> dflt | Some v \<Rightarrow> v)"

text \<open>
  \<^verbatim>\<open>_get_priority\<close>, statement by statement: the running value
  \<^verbatim>\<open>base_priority\<close> is threaded through the five adjustments in source order.
\<close>

definition get_priority :: "DetectedStack \<Rightarrow> int" where
  "get_priority s =
     (let base_priority =
            (case list_index LANGUAGE_PRIORITY (language s) of
               None \<Rightarrow> 999
             | Some i \<Rightarrow> int i * 100);
          framework_priority = dict_get FRAMEWORK_PRIORITY (framework s) 50;
          base_priority = base_priority + framework_priority;
          base_priority =
            (if language s = TYPESCRIPT \<and> framework s \<in> set [NESTJS, EXPRESS]
             then base_priority - 50 else base_priority);
          base_priority =
            (if language s = NODEJS \<and> framework s \<in> set [REACT, VUE, ANGULAR]
             then base_priority + 200 else base_priority);
          base_priority =
            (if language s = KOTLIN \<and> framework s = KTOR
             then base_priority - 10 else base_priority);
          base_priority =
            (if has_dockerfile s then base_priority - 5 else base_priority);
          base_priority =
            (if has_tests s then base_priority - 3 else base_priority)
      in base_priority)"

subsection \<open>The reference formula of the specification\<close>

text \<open>
  The formula as the specification words it: a rank per language, a rank per
  framework, and five independent additive adjustments.
\<close>

fun spec_language_base :: "Language \<Rightarrow> int" where
  "spec_language_base JAVA = 0 * 100"
| "spec_language_base KOTLIN = 1 * 100"
| "spec_language_base DOTNET = 2 * 100"
| "spec_language_base GO = 3 * 100"
| "spec_language_base PYTHON = 4 * 100"
| "spec_language_base PHP = 5 * 100"
| "spec_language_base TYPESCRIPT = 6 * 100"
| "spec_language_base NODEJS = 7 * 100"
| "spec_language_base UNKNOWN = 999"

fun spec_framework_rank :: "Framework \<Rightarrow> int" where
  "spec_framework_rank SPRING_BOOT = 0"
| "spec_framework_rank QUARKUS = 1"
| "spec_framework_rank MICRONAUT = 2"
| "spec_framework_rank KTOR = 3"
| "spec_framework_rank DJANGO = 0"
| "spec_framework_rank FASTAPI = 1"
| "spec_framework_rank FLASK = 2"
| "spec_framework_rank AIOHTTP = 3"
| "spec_framework_rank NESTJS = 0"
| "spec_framework_rank EXPRESS = 1"
| "spec_framework_rank NEXTJS = 10"
| "spec_framework_rank NUXT = 11"
| "spec_framework_rank ANGULAR = 20"
| "spec_framework_rank VUE = 21"
| "spec_framework_rank REACT = 22"
| "spec_framework_rank GIN = 0"
| "spec_framework_rank ECHO = 1"
| "spec_framework_rank FIBER = 2"
| "spec_framework_rank LARAVEL = 0"
| "spec_framework_rank SYMFONY = 1"
| "spec_framework_rank YII = 2"
| "spec_framework_rank CODEIGNITER = 3"
| "spec_framework_rank ASPNET_CORE = 0"
| "spec_framework_rank BLAZOR = 1"
| "spec_framework_rank NONE = 50"

definition spec_adjust :: "bool \<Rightarrow> int \<Rightarrow> int" where
  "spec_adjust c d = (if c then d else 0)"

definition spec_priority :: "DetectedStack \<Rightarrow> int" where
  "spec_priority s =
     spec_language_base (language s) + spec_framework_rank (framework s)
     + spec_adjust (language s = TYPESCRIPT \<and> (framework s = NESTJS \<or> framework s = EXPRESS)) (- 50)
     + spec_adjust (language s = NODEJS
          \<and> (framework s = REACT \<or> framework s = VUE \<or> framework s = ANGULAR)) 200
     + spec_adjust (language s = KOTLIN \<and> framework s = KTOR) (- 10)
     + spec_adjust (has_dockerfile s) (- 5)
     + spec_adjust (has_tests s) (- 3)"

section \<open>Operations on Python values, and library calls\<close>

datatype py_exc = TypeError | KeyError | AttributeError

text \<open>Python's truth value, as read by \<^verbatim>\<open>if x\<close>, \<^verbatim>\<open>not x\<close> and \<^verbatim>\<open>x or y\<close>.\<close>

fun truthy :: "pyval \<Rightarrow> bool" where
  "truthy PNone = False"
| "truthy (PBool b) = b"
| "truthy (PInt i) = (i \<noteq> 0)"
| "truthy (PFloat nz) = nz"
| "truthy (PStr s) = (s \<noteq> [])"
| "truthy (PList l) = (l \<noteq> [])"
| "truthy (PDict d) = (d \<noteq> [])"
| "truthy POther = True"

text \<open>\<^verbatim>\<open>s.startswith(p)\<close>, \<^verbatim>\<open>s.endswith(p)\<close> and \<^verbatim>\<open>sub in s\<close> on strings.\<close>

fun starts_with :: "string \<Rightarrow> string \<Rightarrow> bool" where
  "starts_with s [] = True"
| "starts_with [] (p # ps) = False"
| "starts_with (c # cs) (p # ps) = (c = p \<and> starts_with cs ps)"

definition ends_with :: "string \<Rightarrow> string \<Rightarrow> bool" where
  "ends_with s p = starts_with (rev s) (rev p)"

fun str_contains :: "string \<Rightarrow> string \<Rightarrow> bool" where
  "str_contains [] sub = (sub = [])"
| "str_contains (c # cs) sub = (starts_with (c # cs) sub \<or> str_contains cs sub)"

text \<open>\<^verbatim>\<open>s.split(sep)\<close> for a one-character separator: never empty.\<close>

fun split_on :: "char \<Rightarrow> string \<Rightarrow> string list" where
  "split_on sep [] = [[]]"
| "split_on sep (c # cs) =
     (if c = sep then [] # split_on sep cs
      else (case split_on sep cs of [] \<Rightarrow> [[c]] | w # ws \<Rightarrow> (c # w) # ws))"

text \<open>\<^verbatim>\<open>s.rfind(c)\<close>: the last position of \<open>c\<close>, \<open>None\<close> for Python's -1.\<close>

fun rfind :: "string \<Rightarrow> char \<Rightarrow> nat option" where
  "rfind [] x = None"
| "rfind (y # ys) x =
     (case rfind ys x of
        Some i \<Rightarrow> Some (Suc i)
      | None \<Rightarrow> if y = x then Some 0 else None)"

text \<open>
  \<^verbatim>\<open>k in x\<close>, \<^verbatim>\<open>x[k]\<close> and \<^verbatim>\<open>x.get(k, default)\<close> for a string key \<open>k\<close>:
  membership is key membership on a dict, substring on a string, element
  equality on a list, and a \<^verbatim>\<open>TypeError\<close> otherwise; only a dict can be
  subscripted by a string; only a dict has \<^verbatim>\<open>.get\<close>.
\<close>

fun py_contains :: "pyval \<Rightarrow> string \<Rightarrow> py_exc + bool" where
  "py_contains (PDict d) k = Inr (map_of d k \<noteq> None)"
| "py_contains (PStr s) k = Inr (str_contains s k)"
| "py_contains (PList l) k = Inr (PStr k \<in> set l)"
| "py_contains v k = Inl TypeError"

fun py_getitem :: "pyval \<Rightarrow> string \<Rightarrow> py_exc + pyval" where
  "py_getitem (PDict d) k = (case map_of d k of None \<Rightarrow> Inl KeyError | Some v \<Rightarrow> Inr v)"
| "py_getitem v k = Inl TypeError"

fun py_get :: "pyval \<Rightarrow> string \<Rightarrow> pyval \<Rightarrow> py_exc + pyval" where
  "py_get (PDict d) k dflt = Inr (dict_get d k dflt)"
| "py_get v k dflt = Inl AttributeError"

text \<open>\<^verbatim>\<open>x.split("/")[-1]\<close>: only a string has \<^verbatim>\<open>.split\<close>.\<close>

fun py_split_last :: "pyval \<Rightarrow> py_exc + pyval" where
  "py_split_last (PStr s) = Inr (PStr (last (split_on CHR ''/'' s)))"
| "py_split_last v = Inl AttributeError"

subsection \<open>Paths\<close>

text \<open>
  A \<^verbatim>\<open>pathlib.Path\<close> on a POSIX system: whether it is anchored at the root, and
  its parts (empty segments and \<^verbatim>\<open>.\<close> segments are dropped on construction).
\<close>

type_synonym path = "bool \<times> string list"

definition Path :: "string \<Rightarrow> path" where
  "Path s =
     (starts_with s ''/'',
      filter (\<lambda>seg. seg \<noteq> [] \<and> seg \<noteq> ''.'') (split_on CHR ''/'' s))"

text \<open>\<^verbatim>\<open>p / rel\<close>: an absolute right operand replaces the left one.\<close>

definition path_div :: "path \<Rightarrow> string \<Rightarrow> path" where
  "path_div p rel =
     (let q = Path rel in if fst q then q else (fst p, snd p @ snd q))"

text \<open>\<^verbatim>\<open>p.name\<close>: the final part, empty when there is none.\<close>

definition path_name :: "path \<Rightarrow> string" where
  "path_name p = (case snd p of [] \<Rightarrow> [] | seg # segs \<Rightarrow> last (seg # segs))"

text \<open>
  \<^verbatim>\<open>p.stem\<close>: the name up to its last dot, when that dot is neither the first
  nor the last character of the name.
\<close>

definition path_stem :: "path \<Rightarrow> string" where
  "path_stem p =
     (let nm = path_name p in
      case rfind nm CHR ''.'' of
        None \<Rightarrow> nm
      | Some i \<Rightarrow> if 0 < i \<and> i + 1 < length nm then take i nm else nm)"

text \<open>\<^verbatim>\<open>os.path.join(a, b)\<close> of \<^verbatim>\<open>posixpath\<close>, on strings.\<close>

definition os_path_join :: "string \<Rightarrow> string \<Rightarrow> string" where
  "os_path_join a b =
     (if starts_with b ''/'' then b
      else if a = [] \<or> ends_with a ''/'' then a @ b
      else a @ ''/'' @ b)"

subsection \<open>XML trees\<close>

text \<open>
  An \<^verbatim>\<open>xml.etree.ElementTree\<close> element: its tag (a namespaced tag is written
  \<^verbatim>\<open>{uri}local\<close>), its \<^verbatim>\<open>.text\<close> (\<^verbatim>\<open>None\<close> when it has none) and its children.
\<close>

datatype xml = Element string "string option" "xml list"

fun elem_tag :: "xml \<Rightarrow> string" where
  "elem_tag (Element t x cs) = t"

fun elem_text :: "xml \<Rightarrow> string option" where
  "elem_text (Element t x cs) = x"

fun elem_children :: "xml \<Rightarrow> xml list" where
  "elem_children (Element t x cs) = cs"

text \<open>\<^verbatim>\<open>e.find(tag)\<close>: the first direct child with that tag.\<close>

definition find_child :: "xml \<Rightarrow> string \<Rightarrow> xml option" where
  "find_child e t = List.find (\<lambda>c. elem_tag c = t) (elem_children e)"

text \<open>\<^verbatim>\<open>e.find('.//tag')\<close>: the first descendant with that tag, in document order.\<close>

fun descendants :: "xml \<Rightarrow> xml list" where
  "descendants (Element t x cs) = concat (map (\<lambda>c. c # descendants c) cs)"

definition find_descendant :: "xml \<Rightarrow> string \<Rightarrow> xml option" where
  "find_descendant e t = List.find (\<lambda>c. elem_tag c = t) (descendants e)"

text \<open>\<^verbatim>\<open>e.text\<close> as a Python value.\<close>

definition text_value :: "xml \<Rightarrow> pyval" where
  "text_value e = (case elem_text e of None \<Rightarrow> PNone | Some s \<Rightarrow> PStr s)"

subsection \<open>The environment: filesystem probes and parsers\<close>

text \<open>
  The four regular expressions the extractors search for, each with one group:
  \<^item> \<open>RE_name\<close>: \<^verbatim>\<open>name = "..."\<close> in \<^verbatim>\<open>setup.py\<close>;
  \<^item> \<open>RE_version\<close>: \<^verbatim>\<open>version = "..."\<close> in \<^verbatim>\<open>setup.py\<close> and \<^verbatim>\<open>build.gradle\<close>;
  \<^item> \<open>RE_rootProject_name\<close>: \<^verbatim>\<open>rootProject.name = "..."\<close> in the Gradle files;
  \<^item> \<open>RE_module\<close>: \<^verbatim>\<open>module PATH\<close> at the start of a line of \<^verbatim>\<open>go.mod\<close>.
\<close>

datatype regex = RE_name | RE_version | RE_rootProject_name | RE_module

text \<open>
  Everything \<^verbatim>\<open>_extract_metadata\<close> reads from outside, at the boundary of the
  library calls: \<^verbatim>\<open>Path.exists\<close>; \<^verbatim>\<open>open\<close> followed by \<^verbatim>\<open>json.load\<close>,
  \<^verbatim>\<open>tomllib.load\<close>, \<^verbatim>\<open>ET.parse(...).getroot()\<close> or \<^verbatim>\<open>read_text\<close> (\<open>None\<close>
  when the call raises); \<^verbatim>\<open>root.glob("*.csproj")\<close>; and group 1 of
  \<^verbatim>\<open>re.search\<close> (\<open>None\<close> when there is no match). Two calls under the same
  filesystem state read the same environment.
\<close>

record env =
  path_exists :: "path \<Rightarrow> bool"
  json_load :: "path \<Rightarrow> pyval option"
  toml_load :: "path \<Rightarrow> pyval option"
  et_parse :: "path \<Rightarrow> xml option"
  read_text :: "path \<Rightarrow> string option"
  glob_csproj :: "path \<Rightarrow> path list"
  re_search :: "regex \<Rightarrow> string \<Rightarrow> string option"

text \<open>A directory tree without any manifest.\<close>

definition empty_env :: env where
  "empty_env =
     \<lparr> path_exists = (\<lambda>p. False), json_load = (\<lambda>p. None), toml_load = (\<lambda>p. None),
       et_parse = (\<lambda>p. None), read_text = (\<lambda>p. None), glob_csproj = (\<lambda>p. []),
       re_search = (\<lambda>r s. None) \<rparr>"

text \<open>A directory tree whose only file is one JSON document.\<close>

definition json_env :: "path \<Rightarrow> pyval \<Rightarrow> env" where
  "json_env p v =
     empty_env \<lparr> path_exists := (\<lambda>q. q = p),
                 json_load := (\<lambda>q. if q = p then Some v else None) \<rparr>"

section \<open>Metadata extraction (Resolver._extract_metadata)\<close>

datatype error = EmptyInputError | IndexError | ValidationError

text \<open>
  \<open>EmptyInputError\<close> is the \<^verbatim>\<open>ValueError("No technology stack detected. Cannot
  generate pipeline.")\<close> of \<^verbatim>\<open>resolve\<close> and \<^verbatim>\<open>resolve_all\<close>; \<open>IndexError\<close> is what
  \<^verbatim>\<open>sorted_stacks[0]\<close> raises on an empty list; \<open>ValidationError\<close> is what pydantic
  raises when a model is constructed with a field value of the wrong type.
\<close>

text \<open>
  \<^verbatim>\<open>ProjectMetadata(name=n, version=v)\<close>: both fields are declared \<^verbatim>\<open>str\<close>, and
  pydantic accepts a string only.
\<close>

fun ProjectMetadata_init :: "pyval \<Rightarrow> pyval \<Rightarrow> error + ProjectMetadata" where
  "ProjectMetadata_init (PStr n) (PStr v) =
     Inr \<lparr> name = n, version = v, description = None \<rparr>"
| "ProjectMetadata_init n v = Inl ValidationError"

text \<open>
  The two statements \<^verbatim>\<open>name = d.get("name", name)\<close> and
  \<^verbatim>\<open>version = d.get("version", version)\<close> inside a \<^verbatim>\<open>try\<close> whose handler is
  \<^verbatim>\<open>except Exception: pass\<close>: an exception leaves the variables as they are at
  that point.
\<close>

definition get_name_version :: "pyval \<Rightarrow> pyval \<Rightarrow> pyval \<Rightarrow> pyval \<times> pyval" where
  "get_name_version d nm ver =
     (case py_get d ''name'' nm of
        Inl e \<Rightarrow> (nm, ver)
      | Inr nm' \<Rightarrow>
          (case py_get d ''version'' ver of
             Inl e \<Rightarrow> (nm', ver)
           | Inr ver' \<Rightarrow> (nm', ver')))"

definition extract_from_package_json :: "env \<Rightarrow> path \<Rightarrow> pyval \<Rightarrow> pyval \<Rightarrow> pyval \<times> pyval" where
  "extract_from_package_json E root nm ver =
     (let package_json = path_div root ''package.json'' in
      if path_exists E package_json then
        (case json_load E package_json of
           None \<Rightarrow> (nm, ver)
         | Some data \<Rightarrow> get_name_version data nm ver)
      else (nm, ver))"

text \<open>The body of the \<^verbatim>\<open>try\<close> over the parsed \<^verbatim>\<open>pyproject.toml\<close>.\<close>

definition pyproject_body :: "pyval \<Rightarrow> pyval \<Rightarrow> pyval \<Rightarrow> pyval \<times> pyval" where
  "pyproject_body data nm ver =
     (case py_contains data ''tool'' of
        Inl e \<Rightarrow> (nm, ver)
      | Inr has_tool \<Rightarrow>
          (case (if has_tool
                 then (case py_getitem data ''tool'' of
                         Inl e \<Rightarrow> Inl e
                       | Inr tool \<Rightarrow> py_contains tool ''poetry'')
                 else Inr False) of
             Inl e \<Rightarrow> (nm, ver)
           | Inr is_poetry \<Rightarrow>
               if is_poetry then
                 (case py_getitem data ''tool'' of
                    Inl e \<Rightarrow> (nm, ver)
                  | Inr tool \<Rightarrow>
                      (case py_getitem tool ''poetry'' of
                         Inl e \<Rightarrow> (nm, ver)
                       | Inr poetry \<Rightarrow> get_name_version poetry nm ver))
               else
                 (case py_contains data ''project'' of
                    Inl e \<Rightarrow> (nm, ver)
                  | Inr has_project \<Rightarrow>
                      if has_project then
                        (case py_getitem data ''project'' of
                           Inl e \<Rightarrow> (nm, ver)
                         | Inr project \<Rightarrow> get_name_version project nm ver)
                      else (nm, ver))))"

text \<open>
  The body of a \<^verbatim>\<open>try\<close> that searches a file's text for a name and then for a
  version; \<open>rv = None\<close> when the source searches for the name only.
\<close>

definition search_name_version ::
  "env \<Rightarrow> string \<Rightarrow> regex \<Rightarrow> regex option \<Rightarrow> pyval \<Rightarrow> pyval \<Rightarrow> pyval \<times> pyval" where
  "search_name_version E content rn rv nm ver =
     (let nm = (case re_search E rn content of None \<Rightarrow> nm | Some g \<Rightarrow> PStr g);
          ver = (case rv of
                   None \<Rightarrow> ver
                 | Some r \<Rightarrow> (case re_search E r content of None \<Rightarrow> ver | Some g \<Rightarrow> PStr g))
      in (nm, ver))"

definition extract_from_python_config ::
  "env \<Rightarrow> path \<Rightarrow> DetectedStack \<Rightarrow> pyval \<Rightarrow> pyval \<Rightarrow> pyval \<times> pyval" where
  "extract_from_python_config E root s nm ver =
     (let pyproject = path_div root ''pyproject.toml'';
          (nm, ver) =
            (if path_exists E pyproject then
               (case toml_load E pyproject of
                  None \<Rightarrow> (nm, ver)
                | Some data \<Rightarrow> pyproject_body data nm ver)
             else (nm, ver));
          setup_py = path_div root ''setup.py''
      in if \<not> truthy nm \<and> path_exists E setup_py then
           (case read_text E setup_py of
              None \<Rightarrow> (nm, ver)
            | Some content \<Rightarrow> search_name_version E content RE_name (Some RE_version) nm ver)
         else (nm, ver))"

text \<open>The body of the \<^verbatim>\<open>try\<close> over the parsed \<^verbatim>\<open>pom.xml\<close>.\<close>

definition pom_body :: "xml \<Rightarrow> pyval \<Rightarrow> pyval \<Rightarrow> pyval \<times> pyval" where
  "pom_body root_elem nm ver =
     (let artifact_id = find_child root_elem ''{http://maven.apache.org/POM/4.0.0}artifactId'';
          artifact_id = (if artifact_id = None then find_child root_elem ''artifactId''
                         else artifact_id);
          nm = (case artifact_id of None \<Rightarrow> nm | Some e \<Rightarrow> text_value e);
          v = find_child root_elem ''{http://maven.apache.org/POM/4.0.0}version'';
          v = (if v = None then find_child root_elem ''version'' else v);
          ver = (case v of None \<Rightarrow> ver | Some e \<Rightarrow> text_value e)
      in (nm, ver))"

definition extract_from_jvm_config ::
  "env \<Rightarrow> path \<Rightarrow> DetectedStack \<Rightarrow> pyval \<Rightarrow> pyval \<Rightarrow> pyval \<times> pyval" where
  "extract_from_jvm_config E root s nm ver =
     (let pom_xml = path_div root ''pom.xml'';
          (nm, ver) =
            (if path_exists E pom_xml then
               (case et_parse E pom_xml of
                  None \<Rightarrow> (nm, ver)
                | Some root_elem \<Rightarrow> pom_body root_elem nm ver)
             else (nm, ver));
          build_gradle = path_div root ''build.gradle'';
          (nm, ver) =
            (if \<not> truthy nm \<and> path_exists E build_gradle then
               (case read_text E build_gradle of
                  None \<Rightarrow> (nm, ver)
                | Some content \<Rightarrow>
                    search_name_version E content RE_rootProject_name (Some RE_version) nm ver)
             else (nm, ver));
          settings_gradle = path_div root ''settings.gradle''
      in if \<not> truthy nm \<and> path_exists E settings_gradle then
           (case read_text E settings_gradle of
              None \<Rightarrow> (nm, ver)
            | Some content \<Rightarrow> search_name_version E content RE_rootProject_name None nm ver)
         else (nm, ver))"

definition extract_from_go_mod :: "env \<Rightarrow> path \<Rightarrow> pyval \<Rightarrow> pyval \<Rightarrow> pyval \<times> pyval" where
  "extract_from_go_mod E root nm ver =
     (let go_mod = path_div root ''go.mod'' in
      if path_exists E go_mod then
        (case read_text E go_mod of
           None \<Rightarrow> (nm, ver)
         | Some content \<Rightarrow>
             (case re_search E RE_module content of
                None \<Rightarrow> (nm, ver)
              | Some module_path \<Rightarrow> (PStr (last (split_on CHR ''/'' module_path)), ver)))
      else (nm, ver))"

definition extract_from_csproj ::
  "env \<Rightarrow> path \<Rightarrow> DetectedStack \<Rightarrow> pyval \<Rightarrow> pyval \<Rightarrow> pyval \<times> pyval" where
  "extract_from_csproj E root s nm ver =
     (let cfg = (case config_file s of None \<Rightarrow> [] | Some c \<Rightarrow> c);
          csproj_path = (if ends_with cfg ''.csproj'' then Some (path_div root cfg) else None);
          csproj_path =
            (case csproj_path of
               Some p \<Rightarrow> Some p
             | None \<Rightarrow> (case glob_csproj E root of [] \<Rightarrow> None | p # ps \<Rightarrow> Some p))
      in case csproj_path of
           None \<Rightarrow> (nm, ver)
         | Some p \<Rightarrow>
             if path_exists E p then
               (case et_parse E p of
                  None \<Rightarrow> (nm, ver)
                | Some root_elem \<Rightarrow>
                    (let nm = PStr (path_stem p);
                         v = find_descendant root_elem ''Version''
                     in case v of
                          None \<Rightarrow> (nm, ver)
                        | Some e \<Rightarrow> if truthy (text_value e) then (nm, text_value e)
                                    else (nm, ver)))
             else (nm, ver))"

definition extract_from_composer :: "env \<Rightarrow> path \<Rightarrow> pyval \<Rightarrow> pyval \<Rightarrow> pyval \<times> pyval" where
  "extract_from_composer E root nm ver =
     (let composer_json = path_div root ''composer.json'' in
      if path_exists E composer_json then
        (case json_load E composer_json of
           None \<Rightarrow> (nm, ver)
         | Some data \<Rightarrow>
             (case py_get data ''name'' (PStr []) of
                Inl e \<Rightarrow> (nm, ver)
              | Inr full_name \<Rightarrow>
                  (case (if truthy full_name then py_contains full_name ''/'' else Inr False) of
                     Inl e \<Rightarrow> (nm, ver)
                   | Inr has_slash \<Rightarrow>
                       (case (if has_slash then py_split_last full_name
                              else if truthy full_name then Inr full_name
                              else Inr nm) of
                          Inl e \<Rightarrow> (nm, ver)
                        | Inr nm' \<Rightarrow>
                            (case py_get data ''version'' ver of
                               Inl e \<Rightarrow> (nm', ver)
                             | Inr ver' \<Rightarrow> (nm', ver'))))))
      else (nm, ver))"

text \<open>\<^verbatim>\<open>Language.value\<close>.\<close>

fun language_value :: "Language \<Rightarrow> string" where
  "language_value JAVA = ''java''"
| "language_value KOTLIN = ''kotlin''"
| "language_value PYTHON = ''python''"
| "language_value NODEJS = ''nodejs''"
| "language_value TYPESCRIPT = ''typescript''"
| "language_value GO = ''go''"
| "language_value DOTNET = ''dotnet''"
| "language_value PHP = ''php''"
| "language_value UNKNOWN = ''unknown''"

text \<open>The \<^verbatim>\<open>if\<close>/\<^verbatim>\<open>elif\<close> chain of \<^verbatim>\<open>_extract_metadata\<close> over the language.\<close>

definition extract_dispatch ::
  "env \<Rightarrow> DetectedStack \<Rightarrow> path \<Rightarrow> pyval \<Rightarrow> pyval \<Rightarrow> pyval \<times> pyval" where
  "extract_dispatch E s root nm ver =
     (if language s \<in> set [NODEJS, TYPESCRIPT] then extract_from_package_json E root nm ver
      else if language s = PYTHON then extract_from_python_config E root s nm ver
      else if language s \<in> set [JAVA, KOTLIN] then extract_from_jvm_config E root s nm ver
      else if language s = GO then extract_from_go_mod E root nm ver
      else if language s = DOTNET then extract_from_csproj E root s nm ver
      else if language s = PHP then extract_from_composer E root nm ver
      else (nm, ver))"

text \<open>
  The fallback \<^verbatim>\<open>root.name or f"auto-generated-{stack.language.value}"\<close>, taken
  when \<^verbatim>\<open>not name\<close>.
\<close>

definition fallback_name :: "DetectedStack \<Rightarrow> path \<Rightarrow> string" where
  "fallback_name s root =
     (if path_name root \<noteq> [] then path_name root
      else ''auto-generated-'' @ language_value (language s))"

definition extract_metadata :: "env \<Rightarrow> DetectedStack \<Rightarrow> string \<Rightarrow> error + ProjectMetadata" where
  "extract_metadata E s root_str =
     (let nm = PNone;
          ver = PStr ''0.1.0'';
          root = Path root_str;
          (nm, ver) = extract_dispatch E s root nm ver;
          nm = (if \<not> truthy nm then PStr (fallback_name s root) else nm)
      in ProjectMetadata_init nm ver)"

section \<open>Resolution (Resolver.resolve, Resolver.resolve_all)\<close>

text \<open>
  \<^verbatim>\<open>sorted(xs, key=k)\<close> and \<^verbatim>\<open>xs.sort(key=k)\<close>: Python's sort is stable and
  ascending. A stable sort is determined by its specification (see
  \<open>sorted_py_unique\<close> below), so the insertion sort of the library stands for it.
\<close>

definition sorted_py :: "('a \<Rightarrow> int) \<Rightarrow> 'a list \<Rightarrow> 'a list" where
  "sorted_py k xs = sort_key k xs"

definition resolve :: "env \<Rightarrow> DetectedStack list \<Rightarrow> string \<Rightarrow> error + ProjectContext" where
  "resolve E detected_stacks root =
     (if detected_stacks = [] then Inl EmptyInputError
      else
        (let mono = (length detected_stacks > 1);
             sorted_stacks = sorted_py get_priority detected_stacks
         in case sorted_stacks of
              [] \<Rightarrow> Inl IndexError
            | winner # others \<Rightarrow>
                (case extract_metadata E winner root of
                   Inl e \<Rightarrow> Inl e
                 | Inr md \<Rightarrow>
                     Inr \<lparr> metadata = md, stack = winner, root_path = root,
                           source_path = ''.'', docker_context = ''.'',
                           is_monorepo = mono,
                           detected_projects = (if mono then detected_stacks else []),
                           extra_vars = [] \<rparr>)))"

text \<open>
  \<^verbatim>\<open>os.path.join(root_path, stack.project_root) if stack.project_root else
  root_path\<close>: \<^verbatim>\<open>None\<close> and the empty string are both false.
\<close>

definition project_path_of :: "string \<Rightarrow> DetectedStack \<Rightarrow> string" where
  "project_path_of root s =
     (case project_root s of
        None \<Rightarrow> root
      | Some pr \<Rightarrow> if pr = [] then root else os_path_join root pr)"

text \<open>
  The loop of \<^verbatim>\<open>resolve_all\<close> that appends one context per stack, in input
  order; the first failing extraction ends it.
\<close>

fun build_contexts :: "env \<Rightarrow> string \<Rightarrow> DetectedStack list \<Rightarrow> error + ProjectContext list" where
  "build_contexts E root [] = Inr []"
| "build_contexts E root (s # ss) =
     (let project_path = project_path_of root s in
      case extract_metadata E s project_path of
        Inl e \<Rightarrow> Inl e
      | Inr md \<Rightarrow>
          (case build_contexts E root ss of
             Inl e \<Rightarrow> Inl e
           | Inr contexts \<Rightarrow>
               Inr (\<lparr> metadata = md, stack = s, root_path = project_path,
                      source_path = ''.'', docker_context = ''.'',
                      is_monorepo = False, detected_projects = [], extra_vars = [] \<rparr> # contexts)))"

definition resolve_all ::
  "env \<Rightarrow> DetectedStack list \<Rightarrow> string \<Rightarrow> error + ProjectContext list" where
  "resolve_all E detected_stacks root =
     (if detected_stacks = [] then Inl EmptyInputError
      else
        (case build_contexts E root detected_stacks of
           Inl e \<Rightarrow> Inl e
         | Inr contexts \<Rightarrow> Inr (sorted_py (\<lambda>ctx. get_priority (stack ctx)) contexts)))"

section \<open>Resolution over a store of list objects\<close>

text \<open>
  Python lists are mutable objects passed by reference, so a claim about what a
  call leaves untouched needs them in a store. The store holds the contents of
  every list of stacks and of every list of contexts by address; \<open>lim\<close> is the
  first address not yet allocated. The elements are held by value: writing to a
  field of an element would show as a change of the list that holds it.
\<close>

record store =
  stack_lists :: "nat \<Rightarrow> DetectedStack list"
  context_lists :: "nat \<Rightarrow> ProjectContext list"
  lim :: nat

text \<open>A new list object (\<^verbatim>\<open>sorted(...)\<close> and \<^verbatim>\<open>[]\<close> build one): the next free address.\<close>

definition new_stack_list :: "store \<Rightarrow> DetectedStack list \<Rightarrow> store \<times> nat" where
  "new_stack_list h xs =
     (h \<lparr> stack_lists := (stack_lists h)(lim h := xs), lim := Suc (lim h) \<rparr>, lim h)"

definition new_context_list :: "store \<Rightarrow> ProjectContext list \<Rightarrow> store \<times> nat" where
  "new_context_list h xs =
     (h \<lparr> context_lists := (context_lists h)(lim h := xs), lim := Suc (lim h) \<rparr>, lim h)"

text \<open>\<^verbatim>\<open>xs.append(c)\<close> and \<^verbatim>\<open>xs.sort(key=k)\<close>: both write to the object at \<open>r\<close>.\<close>

definition list_append :: "store \<Rightarrow> nat \<Rightarrow> ProjectContext \<Rightarrow> store" where
  "list_append h r c = h \<lparr> context_lists := (context_lists h)(r := context_lists h r @ [c]) \<rparr>"

definition list_sort :: "store \<Rightarrow> nat \<Rightarrow> (ProjectContext \<Rightarrow> int) \<Rightarrow> store" where
  "list_sort h r k =
     h \<lparr> context_lists := (context_lists h)(r := sorted_py k (context_lists h r)) \<rparr>"

text \<open>
  \<^verbatim>\<open>resolve\<close> with its argument a reference: \<^verbatim>\<open>sorted\<close> builds a new list and
  \<^verbatim>\<open>sorted_stacks[0]\<close> reads it; the returned context holds its values.
\<close>

definition resolve_st ::
  "env \<Rightarrow> store \<Rightarrow> nat \<Rightarrow> string \<Rightarrow> store \<times> (error + ProjectContext)" where
  "resolve_st E h detected_stacks root =
     (if stack_lists h detected_stacks = [] then (h, Inl EmptyInputError)
      else
        (let mono = (length (stack_lists h detected_stacks) > 1);
             (h, sorted_stacks) =
               new_stack_list h (sorted_py get_priority (stack_lists h detected_stacks))
         in case stack_lists h sorted_stacks of
              [] \<Rightarrow> (h, Inl IndexError)
            | winner # others \<Rightarrow>
                (case extract_metadata E winner root of
                   Inl e \<Rightarrow> (h, Inl e)
                 | Inr md \<Rightarrow>
                     (h, Inr \<lparr> metadata = md, stack = winner, root_path = root,
                               source_path = ''.'', docker_context = ''.'',
                               is_monorepo = mono,
                               detected_projects =
                                 (if mono then stack_lists h detected_stacks else []),
                               extra_vars = [] \<rparr>))))"

text \<open>
  The loop of \<^verbatim>\<open>resolve_all\<close>: each round appends to the list \<^verbatim>\<open>contexts\<close>; an
  exception ends it with the store as it is then.
\<close>

fun append_contexts ::
  "env \<Rightarrow> string \<Rightarrow> store \<Rightarrow> nat \<Rightarrow> DetectedStack list \<Rightarrow> store \<times> error option" where
  "append_contexts E root h contexts [] = (h, None)"
| "append_contexts E root h contexts (s # ss) =
     (let project_path = project_path_of root s in
      case extract_metadata E s project_path of
        Inl e \<Rightarrow> (h, Some e)
      | Inr md \<Rightarrow>
          append_contexts E root
            (list_append h contexts
               \<lparr> metadata = md, stack = s, root_path = project_path,
                 source_path = ''.'', docker_context = ''.'',
                 is_monorepo = False, detected_projects = [], extra_vars = [] \<rparr>)
            contexts ss)"

text \<open>
  \<^verbatim>\<open>resolve_all\<close>: \<^verbatim>\<open>contexts = []\<close> is a new object, the loop fills it,
  \<^verbatim>\<open>contexts.sort\<close> sorts it in place, and the reference to it is returned.
\<close>

definition resolve_all_st ::
  "env \<Rightarrow> store \<Rightarrow> nat \<Rightarrow> string \<Rightarrow> store \<times> (error + nat)" where
  "resolve_all_st E h detected_stacks root =
     (if stack_lists h detected_stacks = [] then (h, Inl EmptyInputError)
      else
        (let (h, contexts) = new_context_list h [];
             (h, raised) = append_contexts E root h contexts (stack_lists h detected_stacks)
         in case raised of
              Some e \<Rightarrow> (h, Inl e)
            | None \<Rightarrow>
                (list_sort h contexts (\<lambda>ctx. get_priority (stack ctx)), Inr contexts)))"

text \<open>What a caller reads through the reference that \<open>resolve_all_st\<close> returns.\<close>

definition load_result :: "store \<times> (error + nat) \<Rightarrow> error + ProjectContext list" where
  "load_result r = (case snd r of Inl e \<Rightarrow> Inl e | Inr a \<Rightarrow> Inr (context_lists (fst r) a))"

section \<open>Reordering and sample inputs\<close>


text \<open>A Go project detected in the subdirectory \<open>d\<close>, every other field at its default.\<close>

definition go_at :: "string \<Rightarrow> DetectedStack" where
  "go_at d = (default_stack GO) \<lparr> project_root := Some d \<rparr>"

text \<open>The metadata of a directory \<^verbatim>\<open>repo\<close> that holds no manifest.\<close>

definition repo_metadata :: ProjectMetadata where
  "repo_metadata = \<lparr> name = ''repo'', version = ''0.1.0'', description = None \<rparr>"

text \<open>A TypeScript project with the framework \<open>f\<close>, every other field at its default.\<close>

definition ts_with :: "Framework \<Rightarrow> DetectedStack" where
  "ts_with f = (default_stack TYPESCRIPT) \<lparr> framework := f \<rparr>"

text \<open>A store whose only object is the caller's list of two candidates, at address 0.\<close>

definition sample_store :: store where
  "sample_store =
     \<lparr> stack_lists = (\<lambda>a. [])(0 := [default_stack NODEJS, go_at ''svc'']),
       context_lists = (\<lambda>a. []), lim = 1 \<rparr>"

text \<open>A store with two lists of candidates that are equal by value, at addresses 0 and 1.\<close>

definition twin_store :: store where
  "twin_store =
     \<lparr> stack_lists = (\<lambda>a. [])(0 := [default_stack NODEJS, go_at ''svc''],
                                  1 := [default_stack NODEJS, go_at ''svc'']),
       context_lists = (\<lambda>a. []), lim = 2 \<rparr>"

section \<open>Properties of the scoring function\<close>

lemma language_base_eq:
  "(case list_index LANGUAGE_PRIORITY l of None \<Rightarrow> 999 | Some i \<Rightarrow> int i * 100)
     = spec_language_base l"
  by (cases l) (simp_all add: LANGUAGE_PRIORITY_def)

lemma framework_rank_eq:
  "dict_get FRAMEWORK_PRIORITY f 50 = spec_framework_rank f"
  by (cases f) (simp_all add: FRAMEWORK_PRIORITY_def dict_get_def)

text \<open>
  C1. For every detected stack the score computed by \<^verbatim>\<open>_get_priority\<close> equals the
  reference formula: language index times 100 (999 flat for a language outside
  the precedence list), plus the framework's table entry (50 when absent), minus
  50 for TypeScript with NestJS or Express, plus 200 for Node.js with React, Vue
  or Angular, minus 10 for Kotlin with Ktor, minus 5 with a Dockerfile, minus 3
  with tests, all adjustments independent and additive.
\<close>

theorem get_priority_eq_spec:
  "get_priority s = spec_priority s"
  unfolding get_priority_def spec_priority_def Let_def language_base_eq framework_rank_eq
  by (simp add: spec_adjust_def)

section \<open>Auxiliary facts\<close>

subsection \<open>Errors of metadata extraction\<close>

lemma ProjectMetadata_init_error:
  "ProjectMetadata_init n v = Inl e \<Longrightarrow> e = ValidationError"
  by (induction n v rule: ProjectMetadata_init.induct) simp_all

lemma extract_metadata_error:
  "extract_metadata E s r = Inl e \<Longrightarrow> e = ValidationError"
  unfolding extract_metadata_def Let_def
  by (auto split: prod.splits dest: ProjectMetadata_init_error)

subsection \<open>The stable sort\<close>

lemma sorted_py_Nil [simp]: "sorted_py k [] = []"
  by (simp add: sorted_py_def)

lemma sorted_py_Cons:
  "sorted_py k (x # xs) = insort_key k x (sorted_py k xs)"
  by (simp add: sorted_py_def)

lemma sorted_py_Nil_iff [simp]: "sorted_py k xs = [] \<longleftrightarrow> xs = []"
  by (metis length_0_conv length_sort sorted_py_def)


lemma sorted_py_unique:
  assumes "sorted (map k ys)" and "mset ys = mset xs"
    and "\<And>v. filter (\<lambda>x. k x = v) ys = filter (\<lambda>x. k x = v) xs"
  shows "sorted_py k xs = ys"
  unfolding sorted_py_def
proof (rule properties_for_sort_key)
  show "mset ys = mset xs" by fact
  show "sorted (map k ys)" by fact
  fix x assume "x \<in> set ys"
  have "(\<lambda>y. k x = k y) = (\<lambda>y. k y = k x)" by auto
  then show "filter (\<lambda>y. k x = k y) ys = filter (\<lambda>y. k x = k y) xs"
    using assms(3) [of "k x"] by simp
qed






lemma sort_key_map:
  "map f (sort_key (\<lambda>x. k (f x)) xs) = sort_key k (map f xs)"
proof (induction xs)
  case Nil then show ?case by simp
next
  case (Cons a xs)
  have ins: "map f (insort_key (\<lambda>x. k (f x)) a ys) = insort_key k (f a) (map f ys)" for ys
    by (induction ys) simp_all
  show ?case using Cons by (simp add: ins)
qed

subsection \<open>The shape of a resolution\<close>

lemma resolve_nonempty:
  "cs \<noteq> [] \<Longrightarrow> resolve E cs root =
     (case extract_metadata E (hd (sorted_py get_priority cs)) root of
        Inl e \<Rightarrow> Inl e
      | Inr md \<Rightarrow> Inr \<lparr> metadata = md, stack = hd (sorted_py get_priority cs), root_path = root,
                        source_path = ''.'', docker_context = ''.'',
                        is_monorepo = (length cs > 1),
                        detected_projects = (if length cs > 1 then cs else []), extra_vars = [] \<rparr>)"
  unfolding resolve_def Let_def
  by (auto split: list.splits sum.splits)

lemma resolve_Inr:
  assumes "resolve E cs root = Inr ctx"
  shows "cs \<noteq> []" and "stack ctx = hd (sorted_py get_priority cs)"
    and "extract_metadata E (stack ctx) root = Inr (metadata ctx)"
    and "root_path ctx = root" and "is_monorepo ctx = (length cs > 1)"
    and "detected_projects ctx = (if length cs > 1 then cs else [])"
proof -
  show ne: "cs \<noteq> []" using assms by (auto simp: resolve_def)
  note r = resolve_nonempty [OF ne, of E root]
  from assms r show "stack ctx = hd (sorted_py get_priority cs)"
    by (auto split: sum.splits)
  from assms r show  "extract_metadata E (stack ctx) root = Inr (metadata ctx)"
    by (auto split: sum.splits)
  from assms r show "root_path ctx = root" by (auto split: sum.splits)
  from assms r show "is_monorepo ctx = (length cs > 1)" by (auto split: sum.splits)
  from assms r show "detected_projects ctx = (if length cs > 1 then cs else [])"
    by (auto split: sum.splits)
qed

subsection \<open>The shape of a multi-project resolution\<close>

lemma build_contexts_error:
  "build_contexts E root ss = Inl e \<Longrightarrow> e = ValidationError"
  by (induction ss) (auto simp: Let_def split: sum.splits dest: extract_metadata_error)

lemma resolve_all_nonempty:
  "cs \<noteq> [] \<Longrightarrow> resolve_all E cs root =
     (case build_contexts E root cs of
        Inl e \<Rightarrow> Inl e
      | Inr contexts \<Rightarrow> Inr (sorted_py (\<lambda>ctx. get_priority (stack ctx)) contexts))"
  by (simp add: resolve_all_def)

lemma build_contexts_Inr:
  "build_contexts E root ss = Inr ctxs \<Longrightarrow>
     map stack ctxs = ss
     \<and> (\<forall>ctx\<in>set ctxs. \<not> is_monorepo ctx \<and> detected_projects ctx = []
           \<and> root_path ctx = project_path_of root (stack ctx)
           \<and> extract_metadata E (stack ctx) (project_path_of root (stack ctx))
               = Inr (metadata ctx))"
proof (induction ss arbitrary: ctxs)
  case Nil
  then show ?case by simp
next
  case (Cons s ss)
  from Cons.prems obtain md rest where
    md: "extract_metadata E s (project_path_of root s) = Inr md"
    and rest: "build_contexts E root ss = Inr rest"
    and ctxs: "ctxs = \<lparr> metadata = md, stack = s, root_path = project_path_of root s,
                      source_path = ''.'', docker_context = ''.'',
                      is_monorepo = False, detected_projects = [], extra_vars = [] \<rparr> # rest"
    by (auto simp: Let_def split: sum.splits)
  from Cons.IH [OF rest] md ctxs show ?case by simp
qed

lemma resolve_all_Inr:
  assumes "resolve_all E cs root = Inr ctxs"
  shows "cs \<noteq> []" and "map stack ctxs = sorted_py get_priority cs"
    and "\<forall>ctx\<in>set ctxs. \<not> is_monorepo ctx \<and> detected_projects ctx = []
           \<and> root_path ctx = project_path_of root (stack ctx)
           \<and> extract_metadata E (stack ctx) (project_path_of root (stack ctx))
               = Inr (metadata ctx)"
proof -
  show ne: "cs \<noteq> []" using assms by (auto simp: resolve_all_def)
  from assms resolve_all_nonempty [OF ne, of E root] obtain contexts where
    b: "build_contexts E root cs = Inr contexts"
    and s: "ctxs = sorted_py (\<lambda>ctx. get_priority (stack ctx)) contexts"
    by (auto split: sum.splits)
  note bc = build_contexts_Inr [OF b]
  have "map stack ctxs = sort_key get_priority (map stack contexts)"
    unfolding s sorted_py_def by (rule sort_key_map)
  with bc show "map stack ctxs = sorted_py get_priority cs"
    by (simp add: sorted_py_def)
  have "set ctxs = set contexts" unfolding s sorted_py_def by simp
  with bc show "\<forall>ctx\<in>set ctxs. \<not> is_monorepo ctx \<and> detected_projects ctx = []
           \<and> root_path ctx = project_path_of root (stack ctx)
           \<and> extract_metadata E (stack ctx) (project_path_of root (stack ctx))
               = Inr (metadata ctx)"
    by simp
qed

subsection \<open>A directory tree without manifests, and sample scores\<close>

lemma extract_metadata_empty_env:
  "extract_metadata empty_env s root =
     Inr \<lparr> name = fallback_name s (Path root), version = ''0.1.0'', description = None \<rparr>"
  by (simp add: extract_metadata_def extract_dispatch_def empty_env_def Let_def
      extract_from_package_json_def extract_from_python_config_def
      extract_from_jvm_config_def extract_from_go_mod_def extract_from_csproj_def
      extract_from_composer_def)

lemma fallback_name_repo: "fallback_name s (Path ''repo'') = ''repo''"
  by (simp add: fallback_name_def Path_def path_name_def)

lemma resolve_empty_env:
  "cs \<noteq> [] \<Longrightarrow> resolve empty_env cs ''repo'' =
     Inr \<lparr> metadata = repo_metadata,
           stack = hd (sorted_py get_priority cs), root_path = ''repo'',
           source_path = ''.'', docker_context = ''.'',
           is_monorepo = (length cs > 1),
           detected_projects = (if length cs > 1 then cs else []), extra_vars = [] \<rparr>"
  by (simp add: resolve_nonempty extract_metadata_empty_env fallback_name_repo repo_metadata_def)

lemma build_contexts_empty_env:
  "\<exists>ctxs. build_contexts empty_env root cs = Inr ctxs"
  by (induction cs) (auto simp: Let_def extract_metadata_empty_env)

lemma resolve_all_empty_env:
  "cs \<noteq> [] \<Longrightarrow> \<exists>ctxs. resolve_all empty_env cs root = Inr ctxs"
  using build_contexts_empty_env [of root cs] by (auto simp: resolve_all_def)

lemmas score_defs =
  get_priority_def default_stack_def LANGUAGE_PRIORITY_def FRAMEWORK_PRIORITY_def dict_get_def

lemma get_priority_go_at [simp]: "get_priority (go_at d) = 350"
  by (simp add: go_at_def score_defs)

lemma get_priority_default_nodejs [simp]: "get_priority (default_stack NODEJS) = 750"
  by (simp add: score_defs)

lemma get_priority_default_go [simp]: "get_priority (default_stack GO) = 350"
  by (simp add: score_defs)

lemma go_at_inj [simp]: "go_at d = go_at d' \<longleftrightarrow> d = d'"
  by (simp add: go_at_def default_stack_def)

section \<open>Express before React\<close>

text \<open>
  C7. A TypeScript candidate with Express and no maturity flag scores 551, one
  with React scores 622, and \<^verbatim>\<open>resolve\<close> picks the Express candidate in either
  input order: the result is the context built around it (or the error of
  extracting its metadata).
\<close>

theorem express_beats_react:
  assumes "language a = TYPESCRIPT" and "framework a = EXPRESS"
    and "\<not> has_dockerfile a" and "\<not> has_tests a"
    and "language b = TYPESCRIPT" and "framework b = REACT"
    and "\<not> has_dockerfile b" and "\<not> has_tests b"
  shows "get_priority a = 551 \<and> get_priority b = 622
     \<and> resolve E [a, b] root =
         (case extract_metadata E a root of
            Inl e \<Rightarrow> Inl e
          | Inr md \<Rightarrow> Inr \<lparr> metadata = md, stack = a, root_path = root,
                            source_path = ''.'', docker_context = ''.'',
                            is_monorepo = True, detected_projects = [a, b], extra_vars = [] \<rparr>)
     \<and> resolve E [b, a] root =
         (case extract_metadata E a root of
            Inl e \<Rightarrow> Inl e
          | Inr md \<Rightarrow> Inr \<lparr> metadata = md, stack = a, root_path = root,
                            source_path = ''.'', docker_context = ''.'',
                            is_monorepo = True, detected_projects = [b, a], extra_vars = [] \<rparr>)"
proof -
  have a: "get_priority a = 551"
    using assms(1-4)
    by (simp add: get_priority_def LANGUAGE_PRIORITY_def FRAMEWORK_PRIORITY_def dict_get_def)
  have b: "get_priority b = 622"
    using assms(5-8)
    by (simp add: get_priority_def LANGUAGE_PRIORITY_def FRAMEWORK_PRIORITY_def dict_get_def)
  have ab: "hd (sorted_py get_priority [a, b]) = a"
    using a b by (simp add: sorted_py_Cons)
  have ba: "hd (sorted_py get_priority [b, a]) = a"
    using a b by (simp add: sorted_py_Cons)
  have r1: "resolve E [a, b] root =
         (case extract_metadata E a root of
            Inl e \<Rightarrow> Inl e
          | Inr md \<Rightarrow> Inr \<lparr> metadata = md, stack = a, root_path = root,
                            source_path = ''.'', docker_context = ''.'',
                            is_monorepo = True, detected_projects = [a, b], extra_vars = [] \<rparr>)"
    using resolve_nonempty [of "[a, b]" E root] ab by (simp split: sum.splits)
  have r2: "resolve E [b, a] root =
         (case extract_metadata E a root of
            Inl e \<Rightarrow> Inl e
          | Inr md \<Rightarrow> Inr \<lparr> metadata = md, stack = a, root_path = root,
                            source_path = ''.'', docker_context = ''.'',
                            is_monorepo = True, detected_projects = [b, a], extra_vars = [] \<rparr>)"
    using resolve_nonempty [of "[b, a]" E root] ba by (simp split: sum.splits)
  from a b r1 r2 show ?thesis by simp
qed

theorem express_beats_react_witness:
  "get_priority (ts_with EXPRESS) = 551 \<and> get_priority (ts_with REACT) = 622
   \<and> resolve empty_env [ts_with EXPRESS, ts_with REACT] ''repo'' =
       Inr \<lparr> metadata = repo_metadata, stack = ts_with EXPRESS, root_path = ''repo'',
             source_path = ''.'', docker_context = ''.'',
             is_monorepo = True, detected_projects = [ts_with EXPRESS, ts_with REACT], extra_vars = [] \<rparr>
   \<and> resolve empty_env [ts_with REACT, ts_with EXPRESS] ''repo'' =
       Inr \<lparr> metadata = repo_metadata, stack = ts_with EXPRESS, root_path = ''repo'',
             source_path = ''.'', docker_context = ''.'',
             is_monorepo = True, detected_projects = [ts_with REACT, ts_with EXPRESS], extra_vars = [] \<rparr>"
proof -
  have h: "language (ts_with EXPRESS) = TYPESCRIPT" "framework (ts_with EXPRESS) = EXPRESS"
    "\<not> has_dockerfile (ts_with EXPRESS)" "\<not> has_tests (ts_with EXPRESS)"
    "language (ts_with REACT) = TYPESCRIPT" "framework (ts_with REACT) = REACT"
    "\<not> has_dockerfile (ts_with REACT)" "\<not> has_tests (ts_with REACT)"
    by (simp_all add: ts_with_def default_stack_def)
  from express_beats_react [OF h, of empty_env "''repo''"] show ?thesis
    by (simp add: extract_metadata_empty_env fallback_name_repo repo_metadata_def)
qed

section \<open>Empty input\<close>

text \<open>
  On an empty candidate list \<^verbatim>\<open>resolve\<close> and \<^verbatim>\<open>resolve_all\<close> fail with the
  empty-input error, which reaches the caller as the result; on a non-empty list
  neither raises it, and each returns a result exactly when the metadata it
  extracts is accepted.
\<close>

lemma resolve_empty_input:
  "resolve E [] root = Inl EmptyInputError
   \<and> resolve_all E [] root = Inl EmptyInputError
   \<and> (cs \<noteq> [] \<longrightarrow>
        resolve E cs root \<noteq> Inl EmptyInputError
        \<and> resolve_all E cs root \<noteq> Inl EmptyInputError
        \<and> ((\<exists>ctx. resolve E cs root = Inr ctx)
             \<longleftrightarrow> (\<exists>md. extract_metadata E (hd (sorted_py get_priority cs)) root = Inr md))
        \<and> ((\<exists>ctxs. resolve_all E cs root = Inr ctxs)
             \<longleftrightarrow> (\<exists>ctxs. build_contexts E root cs = Inr ctxs)))"
proof (intro conjI impI)
  show "resolve E [] root = Inl EmptyInputError" by (simp add: resolve_def)
  show "resolve_all E [] root = Inl EmptyInputError" by (simp add: resolve_all_def)
next
  assume ne: "cs \<noteq> []"
  show "resolve E cs root \<noteq> Inl EmptyInputError"
    using resolve_nonempty [OF ne, of E root]
    by (auto split: sum.splits dest: extract_metadata_error)
  show "resolve_all E cs root \<noteq> Inl EmptyInputError"
    using resolve_all_nonempty [OF ne, of E root]
    by (auto split: sum.splits dest: build_contexts_error)
  show "(\<exists>ctx. resolve E cs root = Inr ctx)
          \<longleftrightarrow> (\<exists>md. extract_metadata E (hd (sorted_py get_priority cs)) root = Inr md)"
    using resolve_nonempty [OF ne, of E root] by (auto split: sum.splits)
  show "(\<exists>ctxs. resolve_all E cs root = Inr ctxs)
          \<longleftrightarrow> (\<exists>ctxs. build_contexts E root cs = Inr ctxs)"
    using resolve_all_nonempty [OF ne, of E root] by (auto split: sum.splits)
qed

lemma resolve_empty_input_example:
  "[default_stack GO] \<noteq> []
   \<and> resolve empty_env [default_stack GO] ''repo'' \<noteq> Inl EmptyInputError
   \<and> resolve_all empty_env [default_stack GO] ''repo'' \<noteq> Inl EmptyInputError
   \<and> (\<exists>ctx. resolve empty_env [default_stack GO] ''repo'' = Inr ctx)
   \<and> (\<exists>ctxs. resolve_all empty_env [default_stack GO] ''repo'' = Inr ctxs)"
  using resolve_empty_input [of empty_env "''repo''" "[default_stack GO]"]
    build_contexts_empty_env [of "''repo''" "[default_stack GO]"]
  by (simp add: extract_metadata_empty_env)

text \<open>
  A \<^verbatim>\<open>package.json\<close> whose version is \<^verbatim>\<open>null\<close> makes the extraction for a Node.js
  stack fail, whatever the name.
\<close>

lemma extract_metadata_rejects_null_version:
  assumes "language s = NODEJS"
  shows "extract_metadata
     (json_env (Path ''repo/package.json'') (PDict [(''name'', PStr n), (''version'', PNone)]))
     s ''repo''
   = Inl ValidationError"
  using assms
  by (cases "n = []")
     (simp_all add: extract_metadata_def extract_dispatch_def extract_from_package_json_def
      json_env_def empty_env_def Path_def path_div_def get_name_version_def dict_get_def)

text \<open>
  C3 (failing input). The claim has both entry points succeed on every non-empty
  list. With \<^verbatim>\<open>{"name": "demo", "version": null}\<close> in \<^verbatim>\<open>repo/package.json\<close>, the
  one-element list of a Node.js stack is not empty, and both \<^verbatim>\<open>resolve\<close> and
  \<^verbatim>\<open>resolve_all\<close> fail: the validation error of \<^verbatim>\<open>_extract_metadata\<close> passes
  through them to the caller.
\<close>

theorem resolve_nonempty_validation_error:
  "[default_stack NODEJS] \<noteq> []
   \<and> resolve
       (json_env (Path ''repo/package.json'')
          (PDict [(''name'', PStr ''demo''), (''version'', PNone)]))
       [default_stack NODEJS] ''repo''
     = Inl ValidationError
   \<and> resolve_all
       (json_env (Path ''repo/package.json'')
          (PDict [(''name'', PStr ''demo''), (''version'', PNone)]))
       [default_stack NODEJS] ''repo''
     = Inl ValidationError"
proof -
  have l: "language (default_stack NODEJS) = NODEJS" by (simp add: default_stack_def)
  have p: "project_path_of ''repo'' (default_stack NODEJS) = ''repo''"
    by (simp add: project_path_of_def default_stack_def)
  note e = extract_metadata_rejects_null_version [OF l, of "''demo''"]
  have "resolve
       (json_env (Path ''repo/package.json'')
          (PDict [(''name'', PStr ''demo''), (''version'', PNone)]))
       [default_stack NODEJS] ''repo'' = Inl ValidationError"
    by (simp add: resolve_nonempty sorted_py_Cons e)
  moreover have "resolve_all
       (json_env (Path ''repo/package.json'')
          (PDict [(''name'', PStr ''demo''), (''version'', PNone)]))
       [default_stack NODEJS] ''repo'' = Inl ValidationError"
    by (simp add: resolve_all_def p e)
  ultimately show ?thesis by simp
qed

section \<open>The monorepo flag\<close>



section \<open>One context per project\<close>



section \<open>The winner is the first project\<close>



section \<open>The stability law\<close>








section \<open>Metadata extraction can fail\<close>

text \<open>
  C6 (failing input). With \<^verbatim>\<open>{"name": "demo", "version": null}\<close> in
  \<^verbatim>\<open>repo/package.json\<close> and a Node.js stack, \<^verbatim>\<open>data.get("version", version)\<close>
  returns \<^verbatim>\<open>None\<close>, no handler is active when \<^verbatim>\<open>ProjectMetadata\<close> is constructed,
  and the validation error leaves \<^verbatim>\<open>_extract_metadata\<close>.
\<close>

theorem extract_metadata_null_version:
  "extract_metadata
     (json_env (Path ''repo/package.json'')
        (PDict [(''name'', PStr ''demo''), (''version'', PNone)]))
     (default_stack NODEJS) ''repo''
   = Inl ValidationError"
  by (simp add: extract_metadata_def extract_dispatch_def extract_from_package_json_def
      json_env_def empty_env_def Path_def path_div_def default_stack_def
      get_name_version_def dict_get_def)

text \<open>Whenever \<^verbatim>\<open>_extract_metadata\<close> does return, the name is not empty.\<close>

lemma extract_metadata_name_nonempty:
  assumes "extract_metadata E s root = Inr md"
  shows "name md \<noteq> []"
proof -
  obtain nm ver where d: "extract_dispatch E s (Path root) PNone (PStr ''0.1.0'') = (nm, ver)"
    by (cases "extract_dispatch E s (Path root) PNone (PStr ''0.1.0'')") auto
  have fb: "fallback_name s (Path root) \<noteq> []"
    by (simp add: fallback_name_def)
  show ?thesis
  proof (cases "truthy nm")
    case True
    with assms d show ?thesis
      by (cases nm; cases ver) (auto simp: extract_metadata_def)
  next
    case False
    with assms d fb show ?thesis
      by (cases ver) (auto simp: extract_metadata_def)
  qed
qed

text \<open>
  When no manifest yields a name, the name is the last segment of the root path,
  or the string built from the language when that segment is empty.
\<close>

lemma extract_metadata_fallback:
  assumes "extract_metadata E s root = Inr md"
    and "\<not> truthy (fst (extract_dispatch E s (Path root) PNone (PStr ''0.1.0'')))"
  shows "name md =
     (if path_name (Path root) \<noteq> [] then path_name (Path root)
      else ''auto-generated-'' @ language_value (language s))"
proof -
  obtain nm ver where d: "extract_dispatch E s (Path root) PNone (PStr ''0.1.0'') = (nm, ver)"
    by (cases "extract_dispatch E s (Path root) PNone (PStr ''0.1.0'')") auto
  with assms show ?thesis
    by (cases ver) (auto simp: extract_metadata_def fallback_name_def)
qed

text \<open>
  The manifest \<^verbatim>\<open>{"name": "demo-svc", "version": "2.3.1"}\<close> gives both fields.
\<close>

lemma extract_metadata_package_json:
  "extract_metadata
     (json_env (Path ''repo/package.json'')
        (PDict [(''name'', PStr ''demo-svc''), (''version'', PStr ''2.3.1'')]))
     (default_stack NODEJS) ''repo''
   = Inr \<lparr> name = ''demo-svc'', version = ''2.3.1'', description = None \<rparr>"
  by (simp add: extract_metadata_def extract_dispatch_def extract_from_package_json_def
      json_env_def empty_env_def Path_def path_div_def default_stack_def
      get_name_version_def dict_get_def)

section \<open>The input list is left as it was\<close>

lemma resolve_st_frame:
  "b < lim h \<Longrightarrow> stack_lists (fst (resolve_st E h a root)) b = stack_lists h b"
  by (auto simp: resolve_st_def new_stack_list_def Let_def split: list.splits sum.splits)

lemma resolve_st_contexts:
  "context_lists (fst (resolve_st E h a root)) = context_lists h"
  by (auto simp: resolve_st_def new_stack_list_def Let_def split: list.splits sum.splits)

lemma resolve_st_result:
  "a < lim h \<Longrightarrow> snd (resolve_st E h a root) = resolve E (stack_lists h a) root"
  by (auto simp: resolve_st_def resolve_def new_stack_list_def Let_def
      split: list.splits sum.splits)

lemma append_contexts_stacks:
  "stack_lists (fst (append_contexts E root h r ss)) = stack_lists h"
  by (induction ss arbitrary: h) (auto simp: Let_def list_append_def split: sum.splits)

lemma append_contexts_lim:
  "lim (fst (append_contexts E root h r ss)) = lim h"
  by (induction ss arbitrary: h) (auto simp: Let_def list_append_def split: sum.splits)

lemma append_contexts_frame:
  "b \<noteq> r \<Longrightarrow> context_lists (fst (append_contexts E root h r ss)) b = context_lists h b"
  by (induction ss arbitrary: h) (auto simp: Let_def list_append_def split: sum.splits)

lemma append_contexts_result:
  "(case build_contexts E root ss of
      Inl e \<Rightarrow> snd (append_contexts E root h r ss) = Some e
    | Inr cs \<Rightarrow> snd (append_contexts E root h r ss) = None
        \<and> context_lists (fst (append_contexts E root h r ss)) r = context_lists h r @ cs)"
proof (induction ss arbitrary: h)
  case Nil
  then show ?case by simp
next
  case (Cons s ss)
  show ?case
  proof (cases "extract_metadata E s (project_path_of root s)")
    case (Inl e)
    then show ?thesis by (simp add: Let_def)
  next
    case (Inr md)
    let ?c = "\<lparr> metadata = md, stack = s, root_path = project_path_of root s,
                 source_path = ''.'', docker_context = ''.'',
                 is_monorepo = False, detected_projects = [], extra_vars = [] \<rparr>"
    from Cons.IH [of "list_append h r ?c"] Inr show ?thesis
      by (auto simp: Let_def list_append_def split: sum.splits)
  qed
qed

lemma resolve_all_st_stacks:
  "stack_lists (fst (resolve_all_st E h a root)) = stack_lists h"
proof -
  have "stack_lists (fst (append_contexts E root (fst (new_context_list h [])) r ss))
          = stack_lists h" for r ss
    by (simp add: append_contexts_stacks new_context_list_def)
  then show ?thesis
    by (auto simp: resolve_all_st_def Let_def list_sort_def split: prod.splits option.splits)
       (metis fst_conv)+
qed

lemma resolve_all_st_frame:
  "b < lim h \<Longrightarrow> context_lists (fst (resolve_all_st E h a root)) b = context_lists h b"
proof -
  assume b: "b < lim h"
  then have "context_lists (fst (append_contexts E root (fst (new_context_list h [])) (lim h) ss)) b
          = context_lists h b" for ss
    by (simp add: append_contexts_frame new_context_list_def)
  with b show ?thesis
    by (auto simp: resolve_all_st_def Let_def list_sort_def new_context_list_def
        split: prod.splits option.splits) (metis fst_conv)+
qed

lemma resolve_all_st_result:
  "load_result (resolve_all_st E h a root) = resolve_all E (stack_lists h a) root"
proof (cases "stack_lists h a = []")
  case True
  then show ?thesis by (simp add: resolve_all_st_def resolve_all_def load_result_def)
next
  case False
  let ?h = "fst (new_context_list h [])"
  have s: "stack_lists ?h = stack_lists h" and c: "context_lists ?h (lim h) = []"
    and n: "snd (new_context_list h []) = lim h"
    by (simp_all add: new_context_list_def)
  note r = append_contexts_result [where E = E and root = root and ss = "stack_lists h a"
      and h = ?h and r = "lim h"]
  show ?thesis
  proof (cases "build_contexts E root (stack_lists h a)")
    case (Inl e)
    with r False s n show ?thesis
      by (auto simp: resolve_all_st_def resolve_all_def load_result_def Let_def
          split: prod.splits option.splits)
  next
    case (Inr cs)
    with r False s n c show ?thesis
      by (auto simp: resolve_all_st_def resolve_all_def load_result_def Let_def list_sort_def
          split: prod.splits option.splits)
  qed
qed

text \<open>
  C9. Neither \<^verbatim>\<open>resolve\<close> nor \<^verbatim>\<open>resolve_all\<close> mutates its input: after either call
  the list the caller passed holds the same elements, in the same order, with the
  same field values, and so does every other list that existed before the call
  (the sort of \<^verbatim>\<open>resolve\<close> builds a new list, the in-place sort of
  \<^verbatim>\<open>resolve_all\<close> works on the list of contexts it has just built). The results
  are those of the functions over values above.
\<close>

theorem resolve_leaves_input_unchanged:
  assumes "a < lim h"
  shows "stack_lists (fst (resolve_st E h a root)) a = stack_lists h a
     \<and> stack_lists (fst (resolve_all_st E h a root)) a = stack_lists h a
     \<and> (\<forall>b<lim h. stack_lists (fst (resolve_st E h a root)) b = stack_lists h b
            \<and> context_lists (fst (resolve_st E h a root)) b = context_lists h b
            \<and> stack_lists (fst (resolve_all_st E h a root)) b = stack_lists h b
            \<and> context_lists (fst (resolve_all_st E h a root)) b = context_lists h b)
     \<and> snd (resolve_st E h a root) = resolve E (stack_lists h a) root
     \<and> load_result (resolve_all_st E h a root) = resolve_all E (stack_lists h a) root"
proof (intro conjI allI impI)
  show "stack_lists (fst (resolve_st E h a root)) a = stack_lists h a"
    using assms by (rule resolve_st_frame)
  show "stack_lists (fst (resolve_all_st E h a root)) a = stack_lists h a"
    by (simp add: resolve_all_st_stacks)
  show "snd (resolve_st E h a root) = resolve E (stack_lists h a) root"
    using assms by (rule resolve_st_result)
  show "load_result (resolve_all_st E h a root) = resolve_all E (stack_lists h a) root"
    by (rule resolve_all_st_result)
next
  fix b assume b: "b < lim h"
  show "stack_lists (fst (resolve_st E h a root)) b = stack_lists h b"
    using b by (rule resolve_st_frame)
  show "context_lists (fst (resolve_st E h a root)) b = context_lists h b"
    by (simp add: resolve_st_contexts)
  show "stack_lists (fst (resolve_all_st E h a root)) b = stack_lists h b"
    by (simp add: resolve_all_st_stacks)
  show "context_lists (fst (resolve_all_st E h a root)) b = context_lists h b"
    using b by (rule resolve_all_st_frame)
qed

theorem resolve_leaves_input_unchanged_witness:
  "0 < lim sample_store
   \<and> stack_lists sample_store 0 = [default_stack NODEJS, go_at ''svc'']
   \<and> stack_lists (fst (resolve_st empty_env sample_store 0 ''repo'')) 0
       = [default_stack NODEJS, go_at ''svc'']
   \<and> stack_lists (fst (resolve_all_st empty_env sample_store 0 ''repo'')) 0
       = [default_stack NODEJS, go_at ''svc'']
   \<and> (\<exists>ctx. snd (resolve_st empty_env sample_store 0 ''repo'') = Inr ctx
          \<and> stack ctx = go_at ''svc'')
   \<and> (\<exists>ctxs. load_result (resolve_all_st empty_env sample_store 0 ''repo'') = Inr ctxs
          \<and> map stack ctxs = [go_at ''svc'', default_stack NODEJS])"
proof -
  have l: "0 < lim sample_store" by (simp add: sample_store_def)
  have s: "stack_lists sample_store 0 = [default_stack NODEJS, go_at ''svc'']"
    by (simp add: sample_store_def)
  note t = resolve_leaves_input_unchanged [OF l, of empty_env "''repo''"]
  have r: "\<exists>ctx. resolve empty_env [default_stack NODEJS, go_at ''svc''] ''repo'' = Inr ctx
          \<and> stack ctx = go_at ''svc''"
    by (simp add: resolve_empty_env sorted_py_Cons)
  obtain ctxs where c:
    "resolve_all empty_env [default_stack NODEJS, go_at ''svc''] ''repo'' = Inr ctxs"
    using resolve_all_empty_env [of "[default_stack NODEJS, go_at ''svc'']" "''repo''"] by auto
  have "map stack ctxs = [go_at ''svc'', default_stack NODEJS]"
    using resolve_all_Inr(2) [OF c] by (simp add: sorted_py_Cons)
  with c have ra: "\<exists>ctxs. resolve_all empty_env [default_stack NODEJS, go_at ''svc''] ''repo''
        = Inr ctxs \<and> map stack ctxs = [go_at ''svc'', default_stack NODEJS]"
    by (intro exI [of _ ctxs]) simp
  from t l s r ra show ?thesis by simp
qed

section \<open>Determinism\<close>

lemma resolve_st_lim:
  "lim h \<le> lim (fst (resolve_st E h a root))"
  by (auto simp: resolve_st_def new_stack_list_def Let_def split: list.splits sum.splits)

lemma resolve_st_again:
  assumes "a < lim h" and "b < lim h" and "stack_lists h b = stack_lists h a"
  shows "snd (resolve_st F (fst (resolve_st E h a root)) b r) = resolve F (stack_lists h a) r"
proof -
  let ?h = "fst (resolve_st E h a root)"
  have "b < lim ?h" using assms(2) resolve_st_lim [of h E a root] by simp
  then have "snd (resolve_st F ?h b r) = resolve F (stack_lists ?h b) r"
    by (rule resolve_st_result)
  moreover have "stack_lists ?h b = stack_lists h b" using assms(2) by (rule resolve_st_frame)
  ultimately show ?thesis using assms(3) by simp
qed

text \<open>
  C8. \<^verbatim>\<open>resolve\<close> is deterministic. Let two lists of the store be equal by value
  (the same list, or two lists with equal elements in the same order). Under
  the same environment and root path, a call on one of them, a second call on
  it in the store the first call leaves, and a call on the other all give the
  same result, hence the same stack and the same metadata when they return. The
  winner is the same under any environment and root path, since the score
  reads the stack only.
\<close>

theorem resolve_deterministic:
  assumes "a < lim h" and "b < lim h" and "stack_lists h b = stack_lists h a"
  shows "snd (resolve_st E (fst (resolve_st E h a root)) a root) = snd (resolve_st E h a root)
     \<and> snd (resolve_st E (fst (resolve_st E h a root)) b root) = snd (resolve_st E h a root)
     \<and> snd (resolve_st E h b root) = snd (resolve_st E h a root)
     \<and> (\<forall>ctx1 ctx2. snd (resolve_st E h a root) = Inr ctx1
            \<and> snd (resolve_st E (fst (resolve_st E h a root)) b root) = Inr ctx2
          \<longrightarrow> stack ctx2 = stack ctx1 \<and> metadata ctx2 = metadata ctx1)
     \<and> (\<forall>F r ctx1 ctx3. snd (resolve_st E h a root) = Inr ctx1
            \<and> snd (resolve_st F (fst (resolve_st E h a root)) b r) = Inr ctx3
          \<longrightarrow> stack ctx3 = stack ctx1)"
proof (intro conjI allI impI)
  note first = resolve_st_result [OF assms(1), of E root]
  show same: "snd (resolve_st E (fst (resolve_st E h a root)) a root) = snd (resolve_st E h a root)"
    using resolve_st_again [OF assms(1) assms(1) refl, of E E root root] first by simp
  show other: "snd (resolve_st E (fst (resolve_st E h a root)) b root) = snd (resolve_st E h a root)"
    using resolve_st_again [OF assms, of E E root root] first by simp
  show "snd (resolve_st E h b root) = snd (resolve_st E h a root)"
    using resolve_st_result [OF assms(2), of E root] first assms(3) by simp
  {
    fix ctx1 ctx2
    assume "snd (resolve_st E h a root) = Inr ctx1
            \<and> snd (resolve_st E (fst (resolve_st E h a root)) b root) = Inr ctx2"
    with other have "Inr ctx2 = (Inr ctx1 :: error + ProjectContext)" by metis
    then have "ctx2 = ctx1" by simp
    then show "stack ctx2 = stack ctx1" and "metadata ctx2 = metadata ctx1" by simp_all
  }
  {
    fix F r ctx1 ctx3
    assume h: "snd (resolve_st E h a root) = Inr ctx1
            \<and> snd (resolve_st F (fst (resolve_st E h a root)) b r) = Inr ctx3"
    have "resolve E (stack_lists h a) root = Inr ctx1" using h first by simp
    moreover have "resolve F (stack_lists h a) r = Inr ctx3"
      using h resolve_st_again [OF assms, of F E root r] by simp
    ultimately show "stack ctx3 = stack ctx1"
      by (simp add: resolve_Inr(2))
  }
qed

theorem resolve_deterministic_witness:
  "0 < lim twin_store \<and> 1 < lim twin_store
   \<and> stack_lists twin_store 1 = stack_lists twin_store 0
   \<and> (\<exists>ctx. snd (resolve_st empty_env twin_store 0 ''repo'') = Inr ctx
        \<and> snd (resolve_st empty_env (fst (resolve_st empty_env twin_store 0 ''repo'')) 0 ''repo'')
            = Inr ctx
        \<and> snd (resolve_st empty_env (fst (resolve_st empty_env twin_store 0 ''repo'')) 1 ''repo'')
            = Inr ctx
        \<and> snd (resolve_st empty_env twin_store 1 ''repo'') = Inr ctx
        \<and> stack ctx = go_at ''svc'' \<and> metadata ctx = repo_metadata)"
proof -
  have l0: "0 < lim twin_store" and l1: "1 < lim twin_store"
    and eq: "stack_lists twin_store 1 = stack_lists twin_store 0"
    by (simp_all add: twin_store_def)
  note t = resolve_deterministic [OF l0 l1 eq, of empty_env "''repo''"]
  have s: "stack_lists twin_store 0 = [default_stack NODEJS, go_at ''svc'']"
    by (simp add: twin_store_def)
  obtain ctx where c: "snd (resolve_st empty_env twin_store 0 ''repo'') = Inr ctx"
    and w: "stack ctx = go_at ''svc''" and m: "metadata ctx = repo_metadata"
    using resolve_st_result [OF l0, of empty_env "''repo''"]
    by (simp add: s resolve_empty_env sorted_py_Cons)
  from t c have "snd (resolve_st empty_env (fst (resolve_st empty_env twin_store 0 ''repo'')) 0 ''repo'')
            = Inr ctx
        \<and> snd (resolve_st empty_env (fst (resolve_st empty_env twin_store 0 ''repo'')) 1 ''repo'')
            = Inr ctx
        \<and> snd (resolve_st empty_env twin_store 1 ''repo'') = Inr ctx"
    by simp
  with l0 l1 eq c w m show ?thesis by blast
qed

end
